theory Spec2Isabelle
  imports Main
begin

section \<open>The JSON-RPC gateway of minievm: \<open>jsonrpc/jsonrpc.go\<close>\<close>

text \<open>
  The file has three functions: \<open>StartJSONRPC\<close>, \<open>listen\<close> and \<open>ConnectCometWS\<close>.
  They are glue around libraries (cometbft's websocket client, go-ethereum's rpc server,
  \<open>net\<close>, \<open>net/http\<close>, \<open>errgroup\<close>). The model keeps the control flow of the three
  functions as it is written. Every call into a library that can fail takes its outcome
  from an environment \<open>env\<close> (a record of oracles, one per fallible call), and every
  call with an effect outside the function is written to a trace of events, in program
  order. A Go \<open>error\<close> is a value of \<open>error option\<close>: \<open>None\<close> is \<open>nil\<close>.
\<close>

subsection \<open>Values\<close>

datatype error = Error string

text \<open>\<open>time.Duration\<close> counts nanoseconds; the only arithmetic is \<open>50 * time.Second\<close>.\<close>

type_synonym duration = int

definition Second :: duration where
  "Second = 1000000000"

text \<open>RPC namespaces and API version (the \<open>const\<close> block).\<close>

definition EthNamespace :: string where "EthNamespace = ''eth''"
definition NetNamespace :: string where "NetNamespace = ''net''"
definition TxPoolNamespace :: string where "TxPoolNamespace = ''txpool''"
definition Web3Namespace :: string where "Web3Namespace = ''web3''"
definition PersonalNamespace :: string where "PersonalNamespace = ''personal''"
definition DebugNamespace :: string where "DebugNamespace = ''debug''"
definition MinerNamespace :: string where "MinerNamespace = ''miner''"
definition apiVersion :: string where "apiVersion = ''1.0''"

text \<open>
  \<open>config.JSONRPCConfig\<close>: the fields that \<open>jsonrpc.go\<close> reads.
  \<open>MaxOpenConnections\<close> is a Go \<open>int\<close>, so it may be negative.
\<close>

record JSONRPCConfig =
  Address :: string
  EnableUnsafeCORS :: bool
  HTTPTimeout :: duration
  HTTPIdleTimeout :: duration
  MaxOpenConnections :: int

text \<open>
  The options handed to \<open>rpcclient.NewWS\<close>. The reconnect callback is a closure whose
  whole body is one debug log line; it is kept as that line (message, key, value).
\<close>

datatype reconnect_callback = DebugLog string string string

record ws_options =
  MaxReconnectAttempts :: nat
  ReadWait :: duration
  WriteWait :: duration
  PingPeriod :: duration
  OnReconnect :: reconnect_callback

text \<open>A constructed websocket client is identified by what it was constructed from.\<close>

datatype WSClient = WSClient string string ws_options

text \<open>
  The backend and the three API objects are opaque to this file: it only constructs them
  and hands them to \<open>RegisterName\<close>. The filter API is the one that receives the comet
  websocket client.
\<close>

datatype backend = JSONRPCBackend JSONRPCConfig

datatype service =
    EthAPI backend
  | FilterAPI backend WSClient
  | NetAPI backend

record API =
  Namespace :: string
  Version :: string
  Service :: service
  Public :: bool

text \<open>
  The rpc server holds the services registered so far, in order. The router has one route
  (\<open>POST /\<close> to the rpc server) and is wrapped by one of two CORS policies.
\<close>

type_synonym rpc_server = "(string \<times> service) list"

definition NewServer :: rpc_server where
  "NewServer = []"

record route =
  route_path :: string
  route_methods :: "string list"
  route_handler :: rpc_server

datatype cors_policy = cors_Default | cors_AllowAll

datatype handler = CorsHandler cors_policy "route list"

record http_Server =
  Addr :: string
  Handler :: handler
  ReadHeaderTimeout :: duration
  ReadTimeout :: duration
  WriteTimeout :: duration
  IdleTimeout :: duration

datatype listener =
    TCPListener string string
  | LimitListener listener int

text \<open>The closure handed to \<open>g.Go\<close> captures the server, the listener and the config.\<close>

record closure =
  c_httpSrv :: http_Server
  c_ln :: listener
  c_jsonRPCConfig :: JSONRPCConfig

subsection \<open>Events and the environment\<close>

text \<open>
  Two loggers are used: \<open>svrCtx.Logger\<close> and \<open>logger = svrCtx.Logger.With("module", "geth")\<close>.
\<close>

datatype logger = svrCtx_Logger | geth_logger

datatype level = Debug | Info | Err

datatype logval = LStr string | LErr "error option" | LSvc service

datatype event =
    NewWS_call string string ws_options
  | OnStart_call WSClient
  | SetDefault_call
  | RegisterName_call string service
  | Listen_call string string
  | LimitListener_call listener int
  | Go_call closure
  | go_Serve http_Server listener
  | Close_call http_Server
  | Log logger level string "(string \<times> logval) list"

text \<open>
  \<open>Go_call\<close> is \<open>g.Go(func() error {...})\<close>: the closure is submitted to the errgroup.
  \<open>go_Serve\<close> is the inner \<open>go func() {...}()\<close>, the goroutine that logs
  "Starting JSON-RPC server" and sends the result of \<open>httpSrv.Serve(ln)\<close> on \<open>errCh\<close>.
  \<open>Close_call\<close> is \<open>httpSrv.Close()\<close>.

  The outcomes of the library calls: \<open>NewWS\<close> either fails (and then returns a nil
  client) or constructs the client; \<open>OnStart\<close>, \<open>RegisterName\<close>, \<open>net.Listen\<close> and
  \<open>Close\<close> return an error or nil. \<open>RegisterName\<close> may look at what the server holds.
\<close>

record env =
  NewWS :: "string \<Rightarrow> string \<Rightarrow> ws_options \<Rightarrow> error option"
  OnStart :: "WSClient \<Rightarrow> error option"
  RegisterName :: "rpc_server \<Rightarrow> string \<Rightarrow> service \<Rightarrow> error option"
  net_Listen :: "string \<Rightarrow> string \<Rightarrow> error option"
  Close :: "http_Server \<Rightarrow> error option"

text \<open>Projections of a trace.\<close>

fun task_of :: "event \<Rightarrow> closure list" where
  "task_of (Go_call t) = [t]"
| "task_of _ = []"

definition tasks :: "event list \<Rightarrow> closure list" where
  "tasks tr = concat (map task_of tr)"

fun listen_of :: "event \<Rightarrow> (string \<times> string) list" where
  "listen_of (Listen_call network addr) = [(network, addr)]"
| "listen_of _ = []"

definition listen_calls :: "event list \<Rightarrow> (string \<times> string) list" where
  "listen_calls tr = concat (map listen_of tr)"

fun register_of :: "event \<Rightarrow> (string \<times> service) list" where
  "register_of (RegisterName_call ns svc) = [(ns, svc)]"
| "register_of _ = []"

definition register_calls :: "event list \<Rightarrow> (string \<times> service) list" where
  "register_calls tr = concat (map register_of tr)"

fun serve_of :: "event \<Rightarrow> (http_Server \<times> listener) list" where
  "serve_of (go_Serve srv ln) = [(srv, ln)]"
| "serve_of _ = []"

definition serve_goroutines :: "event list \<Rightarrow> (http_Server \<times> listener) list" where
  "serve_goroutines tr = concat (map serve_of tr)"

fun close_of :: "event \<Rightarrow> http_Server list" where
  "close_of (Close_call srv) = [srv]"
| "close_of _ = []"

definition close_calls :: "event list \<Rightarrow> http_Server list" where
  "close_calls tr = concat (map close_of tr)"

fun newws_of :: "event \<Rightarrow> (string \<times> string \<times> ws_options) list" where
  "newws_of (NewWS_call a p opts) = [(a, p, opts)]"
| "newws_of _ = []"

definition newws_calls :: "event list \<Rightarrow> (string \<times> string \<times> ws_options) list" where
  "newws_calls tr = concat (map newws_of tr)"

fun onstart_of :: "event \<Rightarrow> WSClient list" where
  "onstart_of (OnStart_call c) = [c]"
| "onstart_of _ = []"

definition onstart_calls :: "event list \<Rightarrow> WSClient list" where
  "onstart_calls tr = concat (map onstart_of tr)"

subsection \<open>\<open>ConnectCometWS\<close>\<close>

text \<open>
  The options are literals of the source. When \<open>NewWS\<close> fails the error is logged and the
  nil client is returned. When \<open>OnStart\<close> fails the error is logged and the constructed
  client is returned all the same: the function has one \<open>return cometWSClient\<close>.
\<close>

definition comet_options :: "string \<Rightarrow> string \<Rightarrow> ws_options" where
  "comet_options cometRPCAddr cometWSEndpoint =
     \<lparr>MaxReconnectAttempts = 256,
      ReadWait = 0,
      WriteWait = 0,
      PingPeriod = 50 * Second,
      OnReconnect = DebugLog ''EVM RPC reconnects to Comet WS'' ''address''
                      (cometRPCAddr @ cometWSEndpoint)\<rparr>"

definition ConnectCometWS ::
  "env \<Rightarrow> string \<Rightarrow> string \<Rightarrow> WSClient option \<times> event list" where
  "ConnectCometWS e cometRPCAddr cometWSEndpoint =
     (let opts = comet_options cometRPCAddr cometWSEndpoint;
          call = NewWS_call cometRPCAddr cometWSEndpoint opts
      in case NewWS e cometRPCAddr cometWSEndpoint opts of
           Some err \<Rightarrow>
             (None,
              [call,
               Log svrCtx_Logger Err ''Comet WS client could not be created''
                 [(''address'', LStr (cometRPCAddr @ cometWSEndpoint)),
                  (''error'', LErr (Some err))]])
         | None \<Rightarrow>
             (let cometWSClient = WSClient cometRPCAddr cometWSEndpoint opts
              in case OnStart e cometWSClient of
                   Some err \<Rightarrow>
                     (Some cometWSClient,
                      [call, OnStart_call cometWSClient,
                       Log svrCtx_Logger Err ''Comet WS client could not start''
                         [(''address'', LStr (cometRPCAddr @ cometWSEndpoint)),
                          (''error'', LErr (Some err))]])
                 | None \<Rightarrow>
                     (Some cometWSClient, [call, OnStart_call cometWSClient])))"

subsection \<open>\<open>listen\<close>\<close>

definition listen :: "env \<Rightarrow> string \<Rightarrow> JSONRPCConfig \<Rightarrow> (error + listener) \<times> event list" where
  "listen e addr jsonRPCConfig =
     (let addr' = (if addr = [] then '':http'' else addr)
      in case net_Listen e ''tcp'' addr' of
           Some err \<Rightarrow> (Inl err, [Listen_call ''tcp'' addr'])
         | None \<Rightarrow>
             (let ln = TCPListener ''tcp'' addr'
              in if MaxOpenConnections jsonRPCConfig > 0
                 then (Inr (LimitListener ln (MaxOpenConnections jsonRPCConfig)),
                       [Listen_call ''tcp'' addr',
                        LimitListener_call ln (MaxOpenConnections jsonRPCConfig)])
                 else (Inr ln, [Listen_call ''tcp'' addr'])))"

subsection \<open>\<open>StartJSONRPC\<close>\<close>

text \<open>The \<open>apis\<close> slice: eth, the eth filters, net.\<close>

definition apis :: "backend \<Rightarrow> WSClient \<Rightarrow> API list" where
  "apis bkd cometWsClient =
     [\<lparr>Namespace = EthNamespace, Version = apiVersion, Service = EthAPI bkd, Public = True\<rparr>,
      \<lparr>Namespace = EthNamespace, Version = apiVersion,
       Service = FilterAPI bkd cometWsClient, Public = True\<rparr>,
      \<lparr>Namespace = NetNamespace, Version = apiVersion, Service = NetAPI bkd, Public = True\<rparr>]"

text \<open>
  The registration loop. It registers the entries in order into the one rpc server and
  leaves at the first failure, after logging it; the server then holds the entries
  registered before the failing one.
\<close>

fun register_loop ::
  "env \<Rightarrow> rpc_server \<Rightarrow> API list \<Rightarrow> (error option \<times> rpc_server) \<times> event list" where
  "register_loop e rpcServer [] = ((None, rpcServer), [])"
| "register_loop e rpcServer (api # rest) =
     (case RegisterName e rpcServer (Namespace api) (Service api) of
        Some err \<Rightarrow>
          ((Some err, rpcServer),
           [RegisterName_call (Namespace api) (Service api),
            Log svrCtx_Logger Err ''failed to register service in JSON RPC namespace''
              [(''namespace'', LStr (Namespace api)), (''service'', LSvc (Service api))]])
      | None \<Rightarrow>
          (case register_loop e (rpcServer @ [(Namespace api, Service api)]) rest of
             (r, evs) \<Rightarrow> (r, RegisterName_call (Namespace api) (Service api) # evs)))"

definition new_httpSrv :: "JSONRPCConfig \<Rightarrow> rpc_server \<Rightarrow> http_Server" where
  "new_httpSrv jsonRPCConfig rpcServer =
     (let r = [\<lparr>route_path = ''/'', route_methods = [''POST''], route_handler = rpcServer\<rparr>];
          handlerWithCors =
            (if EnableUnsafeCORS jsonRPCConfig then cors_AllowAll else cors_Default)
      in \<lparr>Addr = Address jsonRPCConfig,
          Handler = CorsHandler handlerWithCors r,
          ReadHeaderTimeout = HTTPTimeout jsonRPCConfig,
          ReadTimeout = HTTPTimeout jsonRPCConfig,
          WriteTimeout = HTTPTimeout jsonRPCConfig,
          IdleTimeout = HTTPIdleTimeout jsonRPCConfig\<rparr>)"

text \<open>
  \<open>StartJSONRPC\<close> runs in a world \<open>w\<close>, the trace of what happened before the call, and
  returns its error and the world extended by what the call did. \<open>app\<close>, \<open>svrCtx\<close> and
  \<open>clientCtx\<close> are only passed on to the constructors of the backend and the API objects.
\<close>

definition StartJSONRPC ::
  "env \<Rightarrow> JSONRPCConfig \<Rightarrow> event list \<Rightarrow> error option \<times> event list" where
  "StartJSONRPC e jsonRPCConfig w =
     (case ConnectCometWS e ''http://127.0.0.1:26657'' ''/websocket'' of
        (None, ev1) \<Rightarrow>
          (Some (Error ''failed to connect comet Websocket Server''), w @ ev1)
      | (Some cometWsClient, ev1) \<Rightarrow>
          (let bkd = JSONRPCBackend jsonRPCConfig
           in case register_loop e NewServer (apis bkd cometWsClient) of
                ((Some err, rpcServer), ev2) \<Rightarrow>
                  (Some err, w @ ev1 @ [SetDefault_call] @ ev2)
              | ((None, rpcServer), ev2) \<Rightarrow>
                  (let httpSrv = new_httpSrv jsonRPCConfig rpcServer
                   in case listen e (Addr httpSrv) jsonRPCConfig of
                        (Inl err, ev3) \<Rightarrow>
                          (Some err, w @ ev1 @ [SetDefault_call] @ ev2 @ ev3)
                      | (Inr ln, ev3) \<Rightarrow>
                          (None,
                           w @ ev1 @ [SetDefault_call] @ ev2 @ ev3 @
                           [Go_call \<lparr>c_httpSrv = httpSrv, c_ln = ln,
                                     c_jsonRPCConfig = jsonRPCConfig\<rparr>]))))"

subsection \<open>The lifecycle task\<close>

text \<open>
  The closure submitted to the errgroup starts the serve goroutine and then blocks in one
  \<open>select\<close> with two cases. Which case fires is the Go runtime's choice, so it is an
  input: \<open>ctx_Done\<close> when the context's cancellation is received first, \<open>errCh_recv err\<close>
  when the serve goroutine's result arrives first.
\<close>

datatype select_case = ctx_Done | errCh_recv "error option"

definition lifecycle_task ::
  "env \<Rightarrow> closure \<Rightarrow> select_case \<Rightarrow> error option \<times> event list" where
  "lifecycle_task e c sel =
     (case sel of
        ctx_Done \<Rightarrow>
          (Close e (c_httpSrv c),
           [go_Serve (c_httpSrv c) (c_ln c),
            Log geth_logger Info ''stopping Ethereum JSONRPC server...''
              [(''address'', LStr (Address (c_jsonRPCConfig c)))],
            Close_call (c_httpSrv c)])
      | errCh_recv err \<Rightarrow>
          (err,
           [go_Serve (c_httpSrv c) (c_ln c),
            Log geth_logger Err ''failed to start Ethereum JSONRPC server''
              [(''err'', LErr err)]]))"

subsection \<open>What the rpc server holds after registrations\<close>

definition registered :: "rpc_server \<Rightarrow> API list \<Rightarrow> rpc_server" where
  "registered rpcServer as = rpcServer @ map (\<lambda>api. (Namespace api, Service api)) as"

subsection \<open>Concrete environments and runs\<close>

text \<open>
  An environment in which every library call succeeds, a configuration, and variations of
  the environment in which one call fails. \<open>comet0\<close>, \<open>srv0\<close>, \<open>ln0\<close> and \<open>task0\<close> are
  the client, the server, the listener and the closure that \<open>StartJSONRPC\<close> builds from them.
\<close>

definition env_ok :: env where
  "env_ok =
     \<lparr>NewWS = (\<lambda>a p opts. None),
      OnStart = (\<lambda>c. None),
      RegisterName = (\<lambda>srv ns svc. None),
      net_Listen = (\<lambda>network addr. None),
      Close = (\<lambda>srv. None)\<rparr>"

definition cfg0 :: JSONRPCConfig where
  "cfg0 =
     \<lparr>Address = ''127.0.0.1:8545'',
      EnableUnsafeCORS = False,
      HTTPTimeout = 10 * Second,
      HTTPIdleTimeout = 120 * Second,
      MaxOpenConnections = 100\<rparr>"

definition comet0 :: WSClient where
  "comet0 = WSClient ''http://127.0.0.1:26657'' ''/websocket''
              (comet_options ''http://127.0.0.1:26657'' ''/websocket'')"

definition env_OnStart_fails :: env where
  "env_OnStart_fails =
     env_ok\<lparr>OnStart := (\<lambda>c. Some (Error ''dial tcp 127.0.0.1:26657: connection refused''))\<rparr>"

definition env_NewWS_fails :: env where
  "env_NewWS_fails =
     env_ok\<lparr>NewWS := (\<lambda>a p opts. Some (Error ''invalid remote address''))\<rparr>"

definition env_filters_rejected :: env where
  "env_filters_rejected =
     env_ok\<lparr>RegisterName := (\<lambda>srv ns svc.
        case svc of FilterAPI bkd c \<Rightarrow> Some (Error ''no suitable methods'') | _ \<Rightarrow> None)\<rparr>"

definition env_eth_rejected :: env where
  "env_eth_rejected =
     env_ok\<lparr>RegisterName := (\<lambda>srv ns svc.
        case svc of EthAPI bkd \<Rightarrow> Some (Error ''no suitable methods'') | _ \<Rightarrow> None)\<rparr>"

definition env_net_rejected :: env where
  "env_net_rejected =
     env_ok\<lparr>RegisterName := (\<lambda>srv ns svc.
        case svc of NetAPI bkd \<Rightarrow> Some (Error ''no suitable methods'') | _ \<Rightarrow> None)\<rparr>"

definition env_port_taken :: env where
  "env_port_taken =
     env_ok\<lparr>net_Listen := (\<lambda>network addr.
        Some (Error ''listen tcp 127.0.0.1:8545: bind: address already in use''))\<rparr>"

definition srv0 :: http_Server where
  "srv0 = new_httpSrv cfg0 (registered NewServer (apis (JSONRPCBackend cfg0) comet0))"

definition ln0 :: listener where
  "ln0 = LimitListener (TCPListener ''tcp'' ''127.0.0.1:8545'') 100"

definition task0 :: closure where
  "task0 = \<lparr>c_httpSrv = srv0, c_ln = ln0, c_jsonRPCConfig = cfg0\<rparr>"

text \<open>
  Worlds: after a successful start, after that server was stopped by cancellation, and
  after its serve loop failed.
\<close>

definition cfg_unlimited :: JSONRPCConfig where
  "cfg_unlimited = cfg0\<lparr>MaxOpenConnections := 0\<rparr>"

definition world_started :: "event list" where
  "world_started = snd (StartJSONRPC env_ok cfg0 [])"

definition world_stopped :: "event list" where
  "world_stopped = world_started @ snd (lifecycle_task env_ok task0 ctx_Done)"

definition world_failed :: "event list" where
  "world_failed =
     world_started @
     snd (lifecycle_task env_ok task0 (errCh_recv (Some (Error ''accept tcp: use of closed network connection''))))"

section \<open>Properties\<close>

subsection \<open>Traces of the three functions\<close>

lemmas projections =
  tasks_def listen_calls_def register_calls_def serve_goroutines_def close_calls_def
  newws_calls_def

lemma projections_append:
  "tasks (xs @ ys) = tasks xs @ tasks ys"
  "listen_calls (xs @ ys) = listen_calls xs @ listen_calls ys"
  "register_calls (xs @ ys) = register_calls xs @ register_calls ys"
  "serve_goroutines (xs @ ys) = serve_goroutines xs @ serve_goroutines ys"
  "close_calls (xs @ ys) = close_calls xs @ close_calls ys"
  "newws_calls (xs @ ys) = newws_calls xs @ newws_calls ys"
  by (simp_all add: projections)

lemma projections_Cons:
  "tasks (x # xs) = task_of x @ tasks xs"
  "listen_calls (x # xs) = listen_of x @ listen_calls xs"
  "register_calls (x # xs) = register_of x @ register_calls xs"
  "serve_goroutines (x # xs) = serve_of x @ serve_goroutines xs"
  "close_calls (x # xs) = close_of x @ close_calls xs"
  "newws_calls (x # xs) = newws_of x @ newws_calls xs"
  by (simp_all add: projections)

lemma projections_Nil:
  "tasks [] = []"
  "listen_calls [] = []"
  "register_calls [] = []"
  "serve_goroutines [] = []"
  "close_calls [] = []"
  "newws_calls [] = []"
  by (simp_all add: projections)

lemmas trace_simps = projections_append projections_Cons projections_Nil

lemma ConnectCometWS_trace:
  "tasks (snd (ConnectCometWS e a p)) = []"
  "listen_calls (snd (ConnectCometWS e a p)) = []"
  "register_calls (snd (ConnectCometWS e a p)) = []"
  "serve_goroutines (snd (ConnectCometWS e a p)) = []"
  "close_calls (snd (ConnectCometWS e a p)) = []"
  "newws_calls (snd (ConnectCometWS e a p)) = [(a, p, comet_options a p)]"
  by (simp_all add: ConnectCometWS_def projections Let_def split: option.splits)

lemma register_loop_trace:
  "tasks (snd (register_loop e srv as)) = [] \<and>
   listen_calls (snd (register_loop e srv as)) = [] \<and>
   serve_goroutines (snd (register_loop e srv as)) = [] \<and>
   close_calls (snd (register_loop e srv as)) = [] \<and>
   newws_calls (snd (register_loop e srv as)) = []"
proof (induction as arbitrary: srv)
  case Nil
  show ?case by (simp add: projections)
next
  case (Cons a as)
  show ?case
  proof (cases "RegisterName e srv (Namespace a) (Service a)")
    case (Some err)
    then show ?thesis by (simp add: projections)
  next
    case None
    with Cons [of "srv @ [(Namespace a, Service a)]"] show ?thesis
      by (simp add: projections split_beta)
  qed
qed

lemma listen_trace:
  "tasks (snd (listen e addr cfg)) = []"
  "register_calls (snd (listen e addr cfg)) = []"
  "serve_goroutines (snd (listen e addr cfg)) = []"
  "close_calls (snd (listen e addr cfg)) = []"
  "newws_calls (snd (listen e addr cfg)) = []"
  by (simp_all add: listen_def projections Let_def split: option.splits)

lemma ConnectCometWS_nil_iff:
  "fst (ConnectCometWS e a p) = None \<longleftrightarrow> NewWS e a p (comet_options a p) \<noteq> None"
  by (auto simp add: ConnectCometWS_def Let_def split: option.splits)

lemma register_loop_ok:
  "fst (fst (register_loop e srv as)) = None \<Longrightarrow>
   snd (fst (register_loop e srv as)) = registered srv as \<and>
   register_calls (snd (register_loop e srv as)) = map (\<lambda>api. (Namespace api, Service api)) as"
proof (induction as arbitrary: srv)
  case Nil
  show ?case by (simp add: registered_def projections)
next
  case (Cons a as)
  let ?srv = "srv @ [(Namespace a, Service a)]"
  from Cons.prems have ok: "RegisterName e srv (Namespace a) (Service a) = None"
    by (cases "RegisterName e srv (Namespace a) (Service a)") simp_all
  with Cons.prems have "fst (fst (register_loop e ?srv as)) = None"
    by (simp add: split_beta)
  from Cons.IH [OF this] ok show ?case
    by (simp add: registered_def projections split_beta)
qed

lemma register_loop_first_failure:
  "fst (fst (register_loop e srv as)) = Some err \<Longrightarrow>
   \<exists>pre api post. as = pre @ api # post \<and>
     RegisterName e (registered srv pre) (Namespace api) (Service api) = Some err \<and>
     snd (fst (register_loop e srv as)) = registered srv pre \<and>
     register_calls (snd (register_loop e srv as)) =
       map (\<lambda>api. (Namespace api, Service api)) (pre @ [api])"
proof (induction as arbitrary: srv)
  case Nil
  then show ?case by simp
next
  case (Cons a as)
  show ?case
  proof (cases "RegisterName e srv (Namespace a) (Service a)")
    case (Some err')
    with Cons.prems have "err' = err" by simp
    with Some have "a # as = [] @ a # as \<and>
        RegisterName e (registered srv []) (Namespace a) (Service a) = Some err \<and>
        snd (fst (register_loop e srv (a # as))) = registered srv [] \<and>
        register_calls (snd (register_loop e srv (a # as))) =
          map (\<lambda>api. (Namespace api, Service api)) ([] @ [a])"
      by (simp add: registered_def projections)
    then show ?thesis by blast
  next
    case None
    let ?srv = "srv @ [(Namespace a, Service a)]"
    from None Cons.prems have "fst (fst (register_loop e ?srv as)) = Some err"
      by (simp add: split_beta)
    from Cons.IH [OF this] obtain pre api post where
      h: "as = pre @ api # post"
         "RegisterName e (registered ?srv pre) (Namespace api) (Service api) = Some err"
         "snd (fst (register_loop e ?srv as)) = registered ?srv pre"
         "register_calls (snd (register_loop e ?srv as)) =
            map (\<lambda>api. (Namespace api, Service api)) (pre @ [api])"
      by blast
    have r: "registered ?srv pre = registered srv (a # pre)"
      by (simp add: registered_def)
    from h None have "a # as = (a # pre) @ api # post \<and>
        RegisterName e (registered srv (a # pre)) (Namespace api) (Service api) = Some err \<and>
        snd (fst (register_loop e srv (a # as))) = registered srv (a # pre) \<and>
        register_calls (snd (register_loop e srv (a # as))) =
          map (\<lambda>api. (Namespace api, Service api)) ((a # pre) @ [api])"
      by (simp add: r projections split_beta)
    then show ?thesis by blast
  qed
qed

text \<open>
  The first entry at which \<open>RegisterName\<close> fails ends the loop with that error: the
  entries before it are in the server, the entries after it are never tried.
\<close>

lemma registered_Cons:
  "registered (srv @ [(Namespace a, Service a)]) as = registered srv (a # as)"
  by (simp add: registered_def)

lemma register_loop_fails_at:
  assumes "\<forall>k < length pre.
             RegisterName e (registered srv (take k pre))
               (Namespace (pre ! k)) (Service (pre ! k)) = None"
    and "RegisterName e (registered srv pre) (Namespace api) (Service api) = Some err"
  shows "register_loop e srv (pre @ api # post) =
           ((Some err, registered srv pre),
            map (\<lambda>a. RegisterName_call (Namespace a) (Service a)) (pre @ [api]) @
            [Log svrCtx_Logger Err ''failed to register service in JSON RPC namespace''
               [(''namespace'', LStr (Namespace api)), (''service'', LSvc (Service api))]])"
  using assms
proof (induction pre arbitrary: srv)
  case Nil
  then show ?case by (simp add: registered_def)
next
  case (Cons a pre)
  let ?srv = "srv @ [(Namespace a, Service a)]"
  from Cons.prems(1) have "RegisterName e (registered srv (take 0 (a # pre)))
      (Namespace ((a # pre) ! 0)) (Service ((a # pre) ! 0)) = None"
    by blast
  then have ok: "RegisterName e srv (Namespace a) (Service a) = None"
    by (simp add: registered_def)
  have rest: "\<forall>k < length pre.
      RegisterName e (registered ?srv (take k pre)) (Namespace (pre ! k)) (Service (pre ! k)) = None"
  proof (intro allI impI)
    fix k assume "k < length pre"
    then have "Suc k < length (a # pre)" by simp
    with Cons.prems(1) have "RegisterName e (registered srv (take (Suc k) (a # pre)))
        (Namespace ((a # pre) ! Suc k)) (Service ((a # pre) ! Suc k)) = None"
      by blast
    then show "RegisterName e (registered ?srv (take k pre))
        (Namespace (pre ! k)) (Service (pre ! k)) = None"
      by (simp add: registered_Cons)
  qed
  from Cons.prems(2) have fail: "RegisterName e (registered ?srv pre)
      (Namespace api) (Service api) = Some err"
    by (simp add: registered_Cons)
  from Cons.IH [OF rest fail] ok show ?case
    by (simp add: registered_Cons)
qed

subsection \<open>The paths through \<open>StartJSONRPC\<close>\<close>

lemma Addr_new_httpSrv: "Addr (new_httpSrv cfg srv) = Address cfg"
  by (simp add: new_httpSrv_def)

lemma StartJSONRPC_connect_nil:
  assumes "ConnectCometWS e ''http://127.0.0.1:26657'' ''/websocket'' = (None, ev1)"
  shows "StartJSONRPC e cfg w =
           (Some (Error ''failed to connect comet Websocket Server''), w @ ev1)"
  using assms by (simp add: StartJSONRPC_def)

lemma StartJSONRPC_register_failed:
  assumes "ConnectCometWS e ''http://127.0.0.1:26657'' ''/websocket'' = (Some c, ev1)"
    and "register_loop e NewServer (apis (JSONRPCBackend cfg) c) = ((Some err, srv), ev2)"
  shows "StartJSONRPC e cfg w = (Some err, w @ ev1 @ [SetDefault_call] @ ev2)"
  using assms by (simp add: StartJSONRPC_def)

lemma StartJSONRPC_listen_failed:
  assumes "ConnectCometWS e ''http://127.0.0.1:26657'' ''/websocket'' = (Some c, ev1)"
    and "register_loop e NewServer (apis (JSONRPCBackend cfg) c) = ((None, srv), ev2)"
    and "listen e (Address cfg) cfg = (Inl err, ev3)"
  shows "StartJSONRPC e cfg w = (Some err, w @ ev1 @ [SetDefault_call] @ ev2 @ ev3)"
  using assms by (simp add: StartJSONRPC_def Addr_new_httpSrv)

lemma StartJSONRPC_started:
  assumes "ConnectCometWS e ''http://127.0.0.1:26657'' ''/websocket'' = (Some c, ev1)"
    and "register_loop e NewServer (apis (JSONRPCBackend cfg) c) = ((None, srv), ev2)"
    and "listen e (Address cfg) cfg = (Inr ln, ev3)"
  shows "StartJSONRPC e cfg w =
           (None, w @ ev1 @ [SetDefault_call] @ ev2 @ ev3 @
              [Go_call \<lparr>c_httpSrv = new_httpSrv cfg srv, c_ln = ln, c_jsonRPCConfig = cfg\<rparr>])"
  using assms by (simp add: StartJSONRPC_def Addr_new_httpSrv)

text \<open>The four ways through \<open>StartJSONRPC\<close>.\<close>

lemma StartJSONRPC_paths:
  obtains
    (connect_nil) ev1 where
      "ConnectCometWS e ''http://127.0.0.1:26657'' ''/websocket'' = (None, ev1)"
  | (register_failed) c ev1 err srv ev2 where
      "ConnectCometWS e ''http://127.0.0.1:26657'' ''/websocket'' = (Some c, ev1)"
      "register_loop e NewServer (apis (JSONRPCBackend cfg) c) = ((Some err, srv), ev2)"
  | (listen_failed) c ev1 srv ev2 err ev3 where
      "ConnectCometWS e ''http://127.0.0.1:26657'' ''/websocket'' = (Some c, ev1)"
      "register_loop e NewServer (apis (JSONRPCBackend cfg) c) = ((None, srv), ev2)"
      "listen e (Address cfg) cfg = (Inl err, ev3)"
  | (started) c ev1 srv ev2 ln ev3 where
      "ConnectCometWS e ''http://127.0.0.1:26657'' ''/websocket'' = (Some c, ev1)"
      "register_loop e NewServer (apis (JSONRPCBackend cfg) c) = ((None, srv), ev2)"
      "listen e (Address cfg) cfg = (Inr ln, ev3)"
proof (cases "ConnectCometWS e ''http://127.0.0.1:26657'' ''/websocket''")
  case (Pair copt ev1)
  show ?thesis
  proof (cases copt)
    case None
    with Pair connect_nil show ?thesis by simp
  next
    case (Some c)
    obtain r srv ev2 where
      reg: "register_loop e NewServer (apis (JSONRPCBackend cfg) c) = ((r, srv), ev2)"
      by (metis surj_pair)
    obtain lr ev3 where lis: "listen e (Address cfg) cfg = (lr, ev3)"
      by (metis surj_pair)
    show ?thesis
    proof (cases r)
      case (Some err)
      with Pair \<open>copt = Some c\<close> reg register_failed show ?thesis by simp
    next
      case None
      show ?thesis
      proof (cases lr)
        case (Inl err)
        with Pair \<open>copt = Some c\<close> reg None lis listen_failed show ?thesis by simp
      next
        case (Inr ln)
        with Pair \<open>copt = Some c\<close> reg None lis started show ?thesis by simp
      qed
    qed
  qed
qed

lemma StartJSONRPC_cases:
  "(\<exists>ev1. ConnectCometWS e ''http://127.0.0.1:26657'' ''/websocket'' = (None, ev1) \<and>
      StartJSONRPC e cfg w =
        (Some (Error ''failed to connect comet Websocket Server''), w @ ev1)) \<or>
   (\<exists>c ev1 err srv ev2.
      ConnectCometWS e ''http://127.0.0.1:26657'' ''/websocket'' = (Some c, ev1) \<and>
      register_loop e NewServer (apis (JSONRPCBackend cfg) c) = ((Some err, srv), ev2) \<and>
      StartJSONRPC e cfg w = (Some err, w @ ev1 @ [SetDefault_call] @ ev2)) \<or>
   (\<exists>c ev1 srv ev2 err ev3.
      ConnectCometWS e ''http://127.0.0.1:26657'' ''/websocket'' = (Some c, ev1) \<and>
      register_loop e NewServer (apis (JSONRPCBackend cfg) c) = ((None, srv), ev2) \<and>
      listen e (Address cfg) cfg = (Inl err, ev3) \<and>
      StartJSONRPC e cfg w = (Some err, w @ ev1 @ [SetDefault_call] @ ev2 @ ev3)) \<or>
   (\<exists>c ev1 srv ev2 ln ev3.
      ConnectCometWS e ''http://127.0.0.1:26657'' ''/websocket'' = (Some c, ev1) \<and>
      register_loop e NewServer (apis (JSONRPCBackend cfg) c) = ((None, srv), ev2) \<and>
      listen e (Address cfg) cfg = (Inr ln, ev3) \<and>
      StartJSONRPC e cfg w =
        (None, w @ ev1 @ [SetDefault_call] @ ev2 @ ev3 @
           [Go_call \<lparr>c_httpSrv = new_httpSrv cfg srv, c_ln = ln, c_jsonRPCConfig = cfg\<rparr>]))"
proof (cases rule: StartJSONRPC_paths [where e = e and cfg = cfg])
  case (connect_nil ev1)
  with StartJSONRPC_connect_nil [OF connect_nil, of cfg w] show ?thesis by blast
next
  case (register_failed c ev1 err srv ev2)
  with StartJSONRPC_register_failed [OF register_failed, of w] show ?thesis by blast
next
  case (listen_failed c ev1 srv ev2 err ev3)
  with StartJSONRPC_listen_failed [OF listen_failed, of w] show ?thesis by blast
next
  case (started c ev1 srv ev2 ln ev3)
  with StartJSONRPC_started [OF started, of w] show ?thesis by blast
qed

text \<open>
  What the events of one call can be: the parts of the trace come from
  \<open>ConnectCometWS\<close>, the registration loop and \<open>listen\<close>, followed by at most one
  submission to the errgroup.
\<close>

lemma ev1_trace:
  assumes "ConnectCometWS e a p = (copt, ev1)"
  shows "tasks ev1 = []" "listen_calls ev1 = []" "register_calls ev1 = []"
    "serve_goroutines ev1 = []" "close_calls ev1 = []"
    "newws_calls ev1 = [(a, p, comet_options a p)]"
  using ConnectCometWS_trace [of e a p] assms by simp_all

lemma ev2_trace:
  assumes "register_loop e srv as = (r, ev2)"
  shows "tasks ev2 = []" "listen_calls ev2 = []" "serve_goroutines ev2 = []"
    "close_calls ev2 = []" "newws_calls ev2 = []"
  using register_loop_trace [of e srv as] assms by simp_all

lemma ev3_trace:
  assumes "listen e addr cfg = (r, ev3)"
  shows "tasks ev3 = []" "register_calls ev3 = []" "serve_goroutines ev3 = []"
    "close_calls ev3 = []" "newws_calls ev3 = []"
  using listen_trace [of e addr cfg] assms by simp_all

lemma StartJSONRPC_never_serves:
  "serve_goroutines (snd (StartJSONRPC e cfg w)) = serve_goroutines w"
  using StartJSONRPC_cases [of e cfg w]
  by (auto simp add: trace_simps ev1_trace ev2_trace ev3_trace)

lemma StartJSONRPC_never_closes:
  "close_calls (snd (StartJSONRPC e cfg w)) = close_calls w"
  using StartJSONRPC_cases [of e cfg w]
  by (auto simp add: trace_simps ev1_trace ev2_trace ev3_trace)

subsection \<open>The upstream client: construction and start\<close>

lemma onstart_calls_simps:
  "onstart_calls (xs @ ys) = onstart_calls xs @ onstart_calls ys"
  "onstart_calls (x # xs) = onstart_of x @ onstart_calls xs"
  "onstart_calls [] = []"
  by (simp_all add: onstart_calls_def)

lemma ConnectCometWS_onstart:
  "onstart_calls (snd (ConnectCometWS e a p)) =
     (case NewWS e a p (comet_options a p) of
        None \<Rightarrow> [WSClient a p (comet_options a p)]
      | Some err \<Rightarrow> [])"
  by (simp add: ConnectCometWS_def Let_def onstart_calls_def split: option.splits)

lemma register_loop_onstart: "onstart_calls (snd (register_loop e srv as)) = []"
proof (induction as arbitrary: srv)
  case Nil
  show ?case by (simp add: onstart_calls_def)
next
  case (Cons a as)
  show ?case
  proof (cases "RegisterName e srv (Namespace a) (Service a)")
    case (Some err)
    then show ?thesis by (simp add: onstart_calls_def)
  next
    case None
    with Cons [of "srv @ [(Namespace a, Service a)]"] show ?thesis
      by (simp add: onstart_calls_def split_beta)
  qed
qed

lemma listen_onstart: "onstart_calls (snd (listen e addr cfg)) = []"
  by (simp add: listen_def Let_def onstart_calls_def split: option.splits)

lemma ev_onstart:
  "ConnectCometWS e a p = (copt, ev1) \<Longrightarrow>
     onstart_calls ev1 =
       (case NewWS e a p (comet_options a p) of
          None \<Rightarrow> [WSClient a p (comet_options a p)]
        | Some err \<Rightarrow> [])"
  "register_loop e srv as = (r, ev2) \<Longrightarrow> onstart_calls ev2 = []"
  "listen e addr cfg = (lr, ev3) \<Longrightarrow> onstart_calls ev3 = []"
  using ConnectCometWS_onstart [of e a p] register_loop_onstart [of e srv as]
    listen_onstart [of e addr cfg]
  by simp_all

lemma StartJSONRPC_onstart:
  "onstart_calls (snd (StartJSONRPC e cfg w)) =
     onstart_calls w @
     (case NewWS e ''http://127.0.0.1:26657'' ''/websocket''
             (comet_options ''http://127.0.0.1:26657'' ''/websocket'') of
        None \<Rightarrow> [WSClient ''http://127.0.0.1:26657'' ''/websocket''
                  (comet_options ''http://127.0.0.1:26657'' ''/websocket'')]
      | Some err \<Rightarrow> [])"
  using StartJSONRPC_cases [of e cfg w]
  by (auto simp add: onstart_calls_simps ev_onstart)

lemma StartJSONRPC_newws:
  "newws_calls (snd (StartJSONRPC e cfg w)) =
     newws_calls w @
     [(''http://127.0.0.1:26657'', ''/websocket'',
       comet_options ''http://127.0.0.1:26657'' ''/websocket'')]"
  using StartJSONRPC_cases [of e cfg w]
  by (auto simp add: trace_simps ev1_trace ev2_trace ev3_trace)

subsection \<open>The outcome of \<open>Close\<close> is not consulted during startup\<close>

lemma register_loop_Close_irrelevant [simp]:
  "register_loop (e\<lparr>Close := cl\<rparr>) srv as = register_loop e srv as"
  by (induction as arbitrary: srv) (simp_all split: option.splits)

lemma ConnectCometWS_Close_irrelevant [simp]:
  "ConnectCometWS (e\<lparr>Close := cl\<rparr>) a p = ConnectCometWS e a p"
  by (simp add: ConnectCometWS_def Let_def cong: option.case_cong)

lemma listen_Close_irrelevant [simp]:
  "listen (e\<lparr>Close := cl\<rparr>) addr cfg = listen e addr cfg"
  by (simp add: listen_def)

lemma StartJSONRPC_Close_irrelevant:
  "StartJSONRPC (e\<lparr>Close := cl\<rparr>) cfg w = StartJSONRPC e cfg w"
  by (simp add: StartJSONRPC_def Let_def cong: option.case_cong prod.case_cong sum.case_cong)

subsection \<open>The concrete runs\<close>

lemma ConnectCometWS_env_ok:
  "ConnectCometWS env_ok ''http://127.0.0.1:26657'' ''/websocket'' =
     (Some comet0,
      [NewWS_call ''http://127.0.0.1:26657'' ''/websocket''
         (comet_options ''http://127.0.0.1:26657'' ''/websocket''),
       OnStart_call comet0])"
  by (simp add: ConnectCometWS_def env_ok_def comet0_def Let_def)

lemma register_loop_env_ok:
  "register_loop env_ok NewServer (apis (JSONRPCBackend cfg0) comet0) =
     ((None, registered NewServer (apis (JSONRPCBackend cfg0) comet0)),
      map (\<lambda>api. RegisterName_call (Namespace api) (Service api))
        (apis (JSONRPCBackend cfg0) comet0))"
  by (simp add: apis_def env_ok_def registered_def NewServer_def)

lemma listen_env_ok:
  "listen env_ok (Address cfg0) cfg0 =
     (Inr ln0,
      [Listen_call ''tcp'' ''127.0.0.1:8545'',
       LimitListener_call (TCPListener ''tcp'' ''127.0.0.1:8545'') 100])"
  by (simp add: listen_def env_ok_def cfg0_def ln0_def Let_def)

lemma StartJSONRPC_env_ok:
  "StartJSONRPC env_ok cfg0 w =
     (None,
      w @ [NewWS_call ''http://127.0.0.1:26657'' ''/websocket''
         (comet_options ''http://127.0.0.1:26657'' ''/websocket''),
       OnStart_call comet0, SetDefault_call] @
      map (\<lambda>api. RegisterName_call (Namespace api) (Service api))
        (apis (JSONRPCBackend cfg0) comet0) @
      [Listen_call ''tcp'' ''127.0.0.1:8545'',
       LimitListener_call (TCPListener ''tcp'' ''127.0.0.1:8545'') 100,
       Go_call task0])"
  using StartJSONRPC_started [OF ConnectCometWS_env_ok register_loop_env_ok listen_env_ok, of w]
  by (simp add: task0_def srv0_def)

lemma ConnectCometWS_env_OnStart_fails:
  "ConnectCometWS env_OnStart_fails ''http://127.0.0.1:26657'' ''/websocket'' =
     (Some comet0,
      [NewWS_call ''http://127.0.0.1:26657'' ''/websocket''
         (comet_options ''http://127.0.0.1:26657'' ''/websocket''),
       OnStart_call comet0,
       Log svrCtx_Logger Err ''Comet WS client could not start''
         [(''address'', LStr ''http://127.0.0.1:26657/websocket''),
          (''error'', LErr (Some (Error ''dial tcp 127.0.0.1:26657: connection refused'')))]])"
  by (simp add: ConnectCometWS_def env_OnStart_fails_def env_ok_def comet0_def Let_def)

lemma register_loop_env_OnStart_fails:
  "register_loop env_OnStart_fails NewServer (apis (JSONRPCBackend cfg0) comet0) =
     ((None, registered NewServer (apis (JSONRPCBackend cfg0) comet0)),
      map (\<lambda>api. RegisterName_call (Namespace api) (Service api))
        (apis (JSONRPCBackend cfg0) comet0))"
  by (simp add: apis_def env_OnStart_fails_def env_ok_def registered_def NewServer_def)

lemma listen_env_OnStart_fails:
  "listen env_OnStart_fails (Address cfg0) cfg0 =
     (Inr ln0,
      [Listen_call ''tcp'' ''127.0.0.1:8545'',
       LimitListener_call (TCPListener ''tcp'' ''127.0.0.1:8545'') 100])"
  by (simp add: listen_def env_OnStart_fails_def env_ok_def cfg0_def ln0_def Let_def)

lemma register_loop_env_filters_rejected:
  "register_loop env_filters_rejected NewServer (apis (JSONRPCBackend cfg0) comet0) =
     ((Some (Error ''no suitable methods''), [(''eth'', EthAPI (JSONRPCBackend cfg0))]),
      [RegisterName_call ''eth'' (EthAPI (JSONRPCBackend cfg0)),
       RegisterName_call ''eth'' (FilterAPI (JSONRPCBackend cfg0) comet0),
       Log svrCtx_Logger Err ''failed to register service in JSON RPC namespace''
         [(''namespace'', LStr ''eth''),
          (''service'', LSvc (FilterAPI (JSONRPCBackend cfg0) comet0))]])"
  by (simp add: apis_def env_filters_rejected_def env_ok_def NewServer_def EthNamespace_def)

lemma ConnectCometWS_env_filters_rejected:
  "ConnectCometWS env_filters_rejected ''http://127.0.0.1:26657'' ''/websocket'' =
     (Some comet0,
      [NewWS_call ''http://127.0.0.1:26657'' ''/websocket''
         (comet_options ''http://127.0.0.1:26657'' ''/websocket''),
       OnStart_call comet0])"
  by (simp add: ConnectCometWS_def env_filters_rejected_def env_ok_def comet0_def Let_def)

lemma ConnectCometWS_env_eth_rejected:
  "ConnectCometWS env_eth_rejected ''http://127.0.0.1:26657'' ''/websocket'' =
     (Some comet0,
      [NewWS_call ''http://127.0.0.1:26657'' ''/websocket''
         (comet_options ''http://127.0.0.1:26657'' ''/websocket''),
       OnStart_call comet0])"
  by (simp add: ConnectCometWS_def env_eth_rejected_def env_ok_def comet0_def Let_def)

lemma ConnectCometWS_env_net_rejected:
  "ConnectCometWS env_net_rejected ''http://127.0.0.1:26657'' ''/websocket'' =
     (Some comet0,
      [NewWS_call ''http://127.0.0.1:26657'' ''/websocket''
         (comet_options ''http://127.0.0.1:26657'' ''/websocket''),
       OnStart_call comet0])"
  by (simp add: ConnectCometWS_def env_net_rejected_def env_ok_def comet0_def Let_def)

lemma ConnectCometWS_env_port_taken:
  "ConnectCometWS env_port_taken ''http://127.0.0.1:26657'' ''/websocket'' =
     (Some comet0,
      [NewWS_call ''http://127.0.0.1:26657'' ''/websocket''
         (comet_options ''http://127.0.0.1:26657'' ''/websocket''),
       OnStart_call comet0])"
  by (simp add: ConnectCometWS_def env_port_taken_def env_ok_def comet0_def Let_def)

lemma register_loop_env_port_taken:
  "register_loop env_port_taken NewServer (apis (JSONRPCBackend cfg0) comet0) =
     ((None, registered NewServer (apis (JSONRPCBackend cfg0) comet0)),
      map (\<lambda>api. RegisterName_call (Namespace api) (Service api))
        (apis (JSONRPCBackend cfg0) comet0))"
  by (simp add: apis_def env_port_taken_def env_ok_def registered_def NewServer_def)

lemma listen_env_port_taken:
  "listen env_port_taken (Address cfg0) cfg0 =
     (Inl (Error ''listen tcp 127.0.0.1:8545: bind: address already in use''),
      [Listen_call ''tcp'' ''127.0.0.1:8545''])"
  by (simp add: listen_def env_port_taken_def env_ok_def cfg0_def Let_def)

lemma world_started_eq:
  "world_started =
     [NewWS_call ''http://127.0.0.1:26657'' ''/websocket''
        (comet_options ''http://127.0.0.1:26657'' ''/websocket''),
      OnStart_call comet0, SetDefault_call] @
     map (\<lambda>api. RegisterName_call (Namespace api) (Service api))
       (apis (JSONRPCBackend cfg0) comet0) @
     [Listen_call ''tcp'' ''127.0.0.1:8545'',
      LimitListener_call (TCPListener ''tcp'' ''127.0.0.1:8545'') 100,
      Go_call task0]"
  by (simp add: world_started_def StartJSONRPC_env_ok)

lemma tasks_world_started: "tasks world_started = [task0]"
  by (simp add: world_started_eq apis_def trace_simps)

section \<open>The claims\<close>

subsection \<open>C1: every startup failure is returned\<close>

text \<open>
  C1. For every startup failure mode (bind failure, namespace registration failure,
  upstream connect failure, the failure of the upstream client's start step after
  construction included) \<open>StartJSONRPC\<close> returns a non-nil error rather than only logging
  it; in particular, if the comet WS client's \<open>OnStart\<close> fails, startup aborts with an
  error.

  The code does not abort when \<open>OnStart\<close> fails. \<open>ConnectCometWS\<close> logs
  "Comet WS client could not start" and still returns the constructed client, so the
  nil check of \<open>StartJSONRPC\<close>, whose message is "failed to connect comet Websocket
  Server", lets the run through: in the environment where only \<open>OnStart\<close> fails,
  \<open>StartJSONRPC\<close> returns nil and submits the lifecycle task.
\<close>

theorem OnStart_failure_is_not_returned:
  "OnStart env_OnStart_fails comet0 =
     Some (Error ''dial tcp 127.0.0.1:26657: connection refused'') \<and>
   fst (ConnectCometWS env_OnStart_fails ''http://127.0.0.1:26657'' ''/websocket'') =
     Some comet0 \<and>
   fst (StartJSONRPC env_OnStart_fails cfg0 []) = None \<and>
   tasks (snd (StartJSONRPC env_OnStart_fails cfg0 [])) = [task0]"
  using StartJSONRPC_started [OF ConnectCometWS_env_OnStart_fails
      register_loop_env_OnStart_fails listen_env_OnStart_fails, of "[]"]
  by (simp add: ConnectCometWS_env_OnStart_fails task0_def srv0_def projections)
     (simp add: env_OnStart_fails_def)

subsection \<open>C2: cancellation\<close>

text \<open>
  C2. If the context's cancellation fires before the serve task reports an error, the
  lifecycle task issues a graceful close to the HTTP server (stop accepting new
  connections, allow in-flight requests to finish), and returns exactly the outcome of
  that close, never the serve-loop error.

  On \<open>ctx_Done\<close> the task logs, makes one call to the server, \<open>httpSrv.Close()\<close>, and
  returns what that call returns. The call is \<open>Close\<close>, which in \<open>net/http\<close> closes the
  listeners and every connection at once; the draining call of \<open>net/http\<close> is
  \<open>Shutdown\<close>, which the task never makes, although the comment above the call says the
  server must be stopped gracefully.
\<close>

theorem cancellation_calls_Close:
  "lifecycle_task e c ctx_Done =
     (Close e (c_httpSrv c),
      [go_Serve (c_httpSrv c) (c_ln c),
       Log geth_logger Info ''stopping Ethereum JSONRPC server...''
         [(''address'', LStr (Address (c_jsonRPCConfig c)))],
       Close_call (c_httpSrv c)]) \<and>
   close_calls (snd (lifecycle_task e c ctx_Done)) = [c_httpSrv c]"
  by (simp add: lifecycle_task_def projections)

subsection \<open>C3: a failed registration is fatal\<close>

text \<open>
  C3. Namespace registration is atomic over the whole ordered entry sequence: if
  \<open>RegisterName\<close> fails for any entry, \<open>StartJSONRPC\<close> returns that error, no dispatcher is
  produced for serving and no listener is bound.

  The entry is any \<open>api\<close> of the \<open>apis\<close> slice, \<open>apis = pre @ api # post\<close>, at which
  \<open>RegisterName\<close> fails after it succeeded for the entries of \<open>pre\<close>, each on the server as
  the entries before it left it. Then the call returns that error; \<open>RegisterName\<close> was
  called for \<open>pre\<close> and \<open>api\<close> and for no entry of \<open>post\<close>; the rpc server that holds \<open>pre\<close>
  is local to the call and is dropped; no call to \<open>net.Listen\<close> is made, no closure (the
  carrier of the HTTP server and its handler) is submitted to the errgroup and no serve
  goroutine is started.
\<close>

theorem registration_failure_is_fatal:
  assumes "ConnectCometWS e ''http://127.0.0.1:26657'' ''/websocket'' = (Some c, ev1)"
    and "apis (JSONRPCBackend cfg) c = pre @ api # post"
    and "\<forall>k < length pre.
           RegisterName e (registered NewServer (take k pre))
             (Namespace (pre ! k)) (Service (pre ! k)) = None"
    and "RegisterName e (registered NewServer pre) (Namespace api) (Service api) = Some err"
  shows "fst (StartJSONRPC e cfg w) = Some err \<and>
         listen_calls (snd (StartJSONRPC e cfg w)) = listen_calls w \<and>
         tasks (snd (StartJSONRPC e cfg w)) = tasks w \<and>
         serve_goroutines (snd (StartJSONRPC e cfg w)) = serve_goroutines w \<and>
         register_calls (snd (StartJSONRPC e cfg w)) =
           register_calls w @ map (\<lambda>a. (Namespace a, Service a)) (pre @ [api])"
proof -
  define ev2 where "ev2 =
      map (\<lambda>a. RegisterName_call (Namespace a) (Service a)) (pre @ [api]) @
      [Log svrCtx_Logger Err ''failed to register service in JSON RPC namespace''
         [(''namespace'', LStr (Namespace api)), (''service'', LSvc (Service api))]]"
  have reg: "register_loop e NewServer (apis (JSONRPCBackend cfg) c) =
      ((Some err, registered NewServer pre), ev2)"
    unfolding ev2_def assms(2) by (rule register_loop_fails_at [OF assms(3,4)])
  note run = StartJSONRPC_register_failed [OF assms(1) reg, of w]
  have "register_calls ev2 = map (\<lambda>a. (Namespace a, Service a)) (pre @ [api])"
    by (simp add: ev2_def projections o_def)
  then have "register_calls (snd (StartJSONRPC e cfg w)) =
      register_calls w @ map (\<lambda>a. (Namespace a, Service a)) (pre @ [api])"
    by (simp add: run trace_simps ev1_trace [OF assms(1)])
  moreover have "fst (StartJSONRPC e cfg w) = Some err"
    by (simp add: run)
  moreover have "listen_calls (snd (StartJSONRPC e cfg w)) = listen_calls w"
    by (simp add: run trace_simps ev1_trace [OF assms(1)] ev2_trace [OF reg])
  moreover have "tasks (snd (StartJSONRPC e cfg w)) = tasks w"
    by (simp add: run trace_simps ev1_trace [OF assms(1)] ev2_trace [OF reg])
  ultimately show ?thesis
    using StartJSONRPC_never_serves [of e cfg w] by blast
qed

text \<open>
  The three entries of the slice, each in an environment that rejects it alone: the eth
  API (first), the filter API (second), the net API (last).
\<close>

theorem registration_failure_is_fatal_witness:
  "(fst (StartJSONRPC env_eth_rejected cfg0 []) = Some (Error ''no suitable methods'') \<and>
    register_calls (snd (StartJSONRPC env_eth_rejected cfg0 [])) =
      [(''eth'', EthAPI (JSONRPCBackend cfg0))] \<and>
    listen_calls (snd (StartJSONRPC env_eth_rejected cfg0 [])) = [] \<and>
    tasks (snd (StartJSONRPC env_eth_rejected cfg0 [])) = [] \<and>
    serve_goroutines (snd (StartJSONRPC env_eth_rejected cfg0 [])) = []) \<and>
   (fst (StartJSONRPC env_filters_rejected cfg0 []) = Some (Error ''no suitable methods'') \<and>
    register_calls (snd (StartJSONRPC env_filters_rejected cfg0 [])) =
      [(''eth'', EthAPI (JSONRPCBackend cfg0)),
       (''eth'', FilterAPI (JSONRPCBackend cfg0) comet0)] \<and>
    listen_calls (snd (StartJSONRPC env_filters_rejected cfg0 [])) = [] \<and>
    tasks (snd (StartJSONRPC env_filters_rejected cfg0 [])) = [] \<and>
    serve_goroutines (snd (StartJSONRPC env_filters_rejected cfg0 [])) = []) \<and>
   (fst (StartJSONRPC env_net_rejected cfg0 []) = Some (Error ''no suitable methods'') \<and>
    register_calls (snd (StartJSONRPC env_net_rejected cfg0 [])) =
      [(''eth'', EthAPI (JSONRPCBackend cfg0)),
       (''eth'', FilterAPI (JSONRPCBackend cfg0) comet0),
       (''net'', NetAPI (JSONRPCBackend cfg0))] \<and>
    listen_calls (snd (StartJSONRPC env_net_rejected cfg0 [])) = [] \<and>
    tasks (snd (StartJSONRPC env_net_rejected cfg0 [])) = [] \<and>
    serve_goroutines (snd (StartJSONRPC env_net_rejected cfg0 [])) = [])"
proof -
  let ?bkd = "JSONRPCBackend cfg0"
  let ?eth = "\<lparr>Namespace = EthNamespace, Version = apiVersion, Service = EthAPI ?bkd,
               Public = True\<rparr>"
  let ?flt = "\<lparr>Namespace = EthNamespace, Version = apiVersion,
               Service = FilterAPI ?bkd comet0, Public = True\<rparr>"
  let ?net = "\<lparr>Namespace = NetNamespace, Version = apiVersion, Service = NetAPI ?bkd,
               Public = True\<rparr>"
  let ?err = "Error ''no suitable methods''"
  have a1: "apis ?bkd comet0 = [] @ ?eth # [?flt, ?net]"
    and a2: "apis ?bkd comet0 = [?eth] @ ?flt # [?net]"
    and a3: "apis ?bkd comet0 = [?eth, ?flt] @ ?net # []"
    by (simp_all add: apis_def)
  have p1: "\<forall>k < length ([] :: API list).
      RegisterName env_eth_rejected (registered NewServer (take k []))
        (Namespace ([] ! k)) (Service ([] ! k)) = None"
    by simp
  have f1: "RegisterName env_eth_rejected (registered NewServer [])
      (Namespace ?eth) (Service ?eth) = Some ?err"
    by (simp add: env_eth_rejected_def)
  have p2: "\<forall>k < length [?eth].
      RegisterName env_filters_rejected (registered NewServer (take k [?eth]))
        (Namespace ([?eth] ! k)) (Service ([?eth] ! k)) = None"
    by (simp add: env_filters_rejected_def)
  have f2: "RegisterName env_filters_rejected (registered NewServer [?eth])
      (Namespace ?flt) (Service ?flt) = Some ?err"
    by (simp add: env_filters_rejected_def)
  have p3: "\<forall>k < length [?eth, ?flt].
      RegisterName env_net_rejected (registered NewServer (take k [?eth, ?flt]))
        (Namespace ([?eth, ?flt] ! k)) (Service ([?eth, ?flt] ! k)) = None"
    by (simp add: env_net_rejected_def less_Suc_eq)
  have f3: "RegisterName env_net_rejected (registered NewServer [?eth, ?flt])
      (Namespace ?net) (Service ?net) = Some ?err"
    by (simp add: env_net_rejected_def)
  from registration_failure_is_fatal [OF ConnectCometWS_env_eth_rejected a1 p1 f1, of "[]"]
    registration_failure_is_fatal [OF ConnectCometWS_env_filters_rejected a2 p2 f2, of "[]"]
    registration_failure_is_fatal [OF ConnectCometWS_env_net_rejected a3 p3 f3, of "[]"]
  show ?thesis
    by (simp add: projections EthNamespace_def NetNamespace_def)
qed

subsection \<open>C4: a second start\<close>

text \<open>
  C4. Once the server has stopped or reached a terminal error state, any subsequent call
  to Start is rejected with an AlreadyStartedError; the server does not support restart.

  \<open>StartJSONRPC\<close> is a plain function and keeps no run state; nothing in the file
  records that a server was started. A call made after the first server was stopped by
  cancellation, or after its serve loop failed, runs like the first one: with every
  startup step succeeding it returns nil and submits a second lifecycle task.
\<close>

theorem restart_after_stop_is_accepted:
  "fst (StartJSONRPC env_ok cfg0 []) = None \<and>
   tasks world_started = [task0] \<and>
   fst (lifecycle_task env_ok task0 ctx_Done) = None \<and>
   close_calls world_stopped = [srv0] \<and>
   fst (StartJSONRPC env_ok cfg0 world_stopped) = None \<and>
   tasks (snd (StartJSONRPC env_ok cfg0 world_stopped)) = [task0, task0] \<and>
   fst (StartJSONRPC env_ok cfg0 world_failed) = None \<and>
   tasks (snd (StartJSONRPC env_ok cfg0 world_failed)) = [task0, task0]"
proof -
  have "close_calls world_started = []"
    using StartJSONRPC_never_closes [of env_ok cfg0 "[]"]
    by (simp add: world_started_def trace_simps)
  then have "close_calls world_stopped = [srv0]"
    by (simp add: world_stopped_def lifecycle_task_def trace_simps task0_def)
  moreover have "fst (lifecycle_task env_ok task0 ctx_Done) = None"
    by (simp add: lifecycle_task_def env_ok_def)
  moreover have "tasks world_stopped = [task0]"
    by (simp add: world_stopped_def lifecycle_task_def trace_simps tasks_world_started)
  moreover have "tasks world_failed = [task0]"
    by (simp add: world_failed_def lifecycle_task_def trace_simps tasks_world_started)
  moreover have "\<And>w. tasks (snd (StartJSONRPC env_ok cfg0 w)) = tasks w @ [task0]"
    by (simp add: StartJSONRPC_env_ok apis_def trace_simps)
  ultimately show ?thesis
    by (simp add: StartJSONRPC_env_ok tasks_world_started)
qed

text \<open>
  C4, as the code has it: what a call of \<open>StartJSONRPC\<close> returns, and what it does, does
  not depend on what happened before the call. It is decided by the outcomes of the
  call's own startup steps; the world before the call is only extended.
\<close>

theorem StartJSONRPC_keeps_no_run_state:
  "fst (StartJSONRPC e cfg w) = fst (StartJSONRPC e cfg []) \<and>
   snd (StartJSONRPC e cfg w) = w @ snd (StartJSONRPC e cfg [])"
  by (simp add: StartJSONRPC_def Let_def split: prod.splits option.splits sum.splits)

subsection \<open>C5: a failed bind launches nothing\<close>

text \<open>
  C5. If acquiring the listener on the configured address fails, \<open>StartJSONRPC\<close> returns
  that error immediately and launches no background work: no task is submitted to the
  supervising group and no serve goroutine is started. The failed \<open>net.Listen\<close> is the
  last thing the call does.
\<close>

theorem listen_failure_launches_nothing:
  assumes "ConnectCometWS e ''http://127.0.0.1:26657'' ''/websocket'' = (Some c, ev1)"
    and "register_loop e NewServer (apis (JSONRPCBackend cfg) c) = ((None, srv), ev2)"
    and "fst (listen e (Address cfg) cfg) = Inl err"
  shows "fst (StartJSONRPC e cfg w) = Some err \<and>
         tasks (snd (StartJSONRPC e cfg w)) = tasks w \<and>
         serve_goroutines (snd (StartJSONRPC e cfg w)) = serve_goroutines w \<and>
         snd (StartJSONRPC e cfg w) =
           w @ ev1 @ [SetDefault_call] @ ev2 @
           [Listen_call ''tcp'' (if Address cfg = [] then '':http'' else Address cfg)]"
proof -
  let ?a = "if Address cfg = [] then '':http'' else Address cfg"
  from assms(3) have lis: "listen e (Address cfg) cfg = (Inl err, [Listen_call ''tcp'' ?a])"
    by (simp add: listen_def Let_def split: option.splits if_splits)
  note run = StartJSONRPC_listen_failed [OF assms(1,2) lis, of w]
  have "fst (StartJSONRPC e cfg w) = Some err"
    by (simp add: run)
  moreover have "tasks (snd (StartJSONRPC e cfg w)) = tasks w"
    by (simp add: run trace_simps ev1_trace [OF assms(1)] ev2_trace [OF assms(2)])
  moreover have "snd (StartJSONRPC e cfg w) =
      w @ ev1 @ [SetDefault_call] @ ev2 @ [Listen_call ''tcp'' ?a]"
    by (simp add: run)
  ultimately show ?thesis
    using StartJSONRPC_never_serves [of e cfg w] by blast
qed

theorem listen_failure_launches_nothing_witness:
  "fst (listen env_port_taken (Address cfg0) cfg0) =
     Inl (Error ''listen tcp 127.0.0.1:8545: bind: address already in use'') \<and>
   fst (StartJSONRPC env_port_taken cfg0 []) =
     Some (Error ''listen tcp 127.0.0.1:8545: bind: address already in use'') \<and>
   tasks (snd (StartJSONRPC env_port_taken cfg0 [])) = [] \<and>
   serve_goroutines (snd (StartJSONRPC env_port_taken cfg0 [])) = [] \<and>
   last (snd (StartJSONRPC env_port_taken cfg0 [])) = Listen_call ''tcp'' ''127.0.0.1:8545''"
proof -
  have h: "fst (listen env_port_taken (Address cfg0) cfg0) =
     Inl (Error ''listen tcp 127.0.0.1:8545: bind: address already in use'')"
    by (simp add: listen_env_port_taken)
  have a: "Address cfg0 = ''127.0.0.1:8545''"
    by (simp add: cfg0_def)
  from h listen_failure_launches_nothing
    [OF ConnectCometWS_env_port_taken register_loop_env_port_taken h, of "[]"]
  show ?thesis
    by (simp add: projections a)
qed

subsection \<open>C6: a serve-loop error\<close>

text \<open>
  C6. If the serve loop terminates with an error while the context is not yet cancelled,
  the lifecycle task returns exactly that error, and takes no close action on the HTTP
  server: it only logs the error.
\<close>

theorem serve_error_is_returned_without_Close:
  "fst (lifecycle_task e c (errCh_recv (Some err))) = Some err \<and>
   close_calls (snd (lifecycle_task e c (errCh_recv (Some err)))) = [] \<and>
   snd (lifecycle_task e c (errCh_recv (Some err))) =
     [go_Serve (c_httpSrv c) (c_ln c),
      Log geth_logger Err ''failed to start Ethereum JSONRPC server''
        [(''err'', LErr (Some err))]]"
  by (simp add: lifecycle_task_def projections)

subsection \<open>C7: a nil upstream client is fatal\<close>

text \<open>
  C7. Whenever \<open>ConnectCometWS\<close> yields nil, \<open>StartJSONRPC\<close> returns a non-nil error
  before any namespace registration and before binding any listener, so no partial
  server is left listening. (\<open>ConnectCometWS\<close> yields nil exactly when \<open>NewWS\<close> fails:
  \<open>ConnectCometWS_nil_iff\<close>.)
\<close>

theorem nil_comet_client_is_fatal:
  assumes "fst (ConnectCometWS e ''http://127.0.0.1:26657'' ''/websocket'') = None"
  shows "fst (StartJSONRPC e cfg w) = Some (Error ''failed to connect comet Websocket Server'') \<and>
         register_calls (snd (StartJSONRPC e cfg w)) = register_calls w \<and>
         listen_calls (snd (StartJSONRPC e cfg w)) = listen_calls w \<and>
         tasks (snd (StartJSONRPC e cfg w)) = tasks w"
proof -
  let ?A = "''http://127.0.0.1:26657''" and ?P = "''/websocket''"
  from assms have nil: "ConnectCometWS e ?A ?P = (None, snd (ConnectCometWS e ?A ?P))"
    by (simp add: prod_eq_iff)
  show ?thesis
    by (simp add: StartJSONRPC_connect_nil [OF nil] trace_simps ev1_trace [OF nil])
qed

theorem nil_comet_client_is_fatal_witness:
  "fst (ConnectCometWS env_NewWS_fails ''http://127.0.0.1:26657'' ''/websocket'') = None \<and>
   fst (StartJSONRPC env_NewWS_fails cfg0 []) =
     Some (Error ''failed to connect comet Websocket Server'') \<and>
   register_calls (snd (StartJSONRPC env_NewWS_fails cfg0 [])) = [] \<and>
   listen_calls (snd (StartJSONRPC env_NewWS_fails cfg0 [])) = [] \<and>
   tasks (snd (StartJSONRPC env_NewWS_fails cfg0 [])) = []"
proof -
  have h: "fst (ConnectCometWS env_NewWS_fails ''http://127.0.0.1:26657'' ''/websocket'') = None"
    by (simp add: ConnectCometWS_def env_NewWS_fails_def env_ok_def Let_def)
  from h nil_comet_client_is_fatal [OF h, of cfg0 "[]"] show ?thesis
    by (simp add: projections)
qed

subsection \<open>C8: \<open>listen\<close>\<close>

text \<open>
  C8. For every address and config, \<open>listen\<close> substitutes \<open>":http"\<close> for the empty
  address, returns the bind error at once when \<open>net.Listen\<close> fails (nothing else is
  done), wraps the listener in a connection-limiting listener when
  \<open>MaxOpenConnections > 0\<close>, and returns the raw listener otherwise, so in particular
  when \<open>MaxOpenConnections = 0\<close>.
\<close>

theorem listen_contract:
  "(addr = [] \<longrightarrow> listen_calls (snd (listen e addr cfg)) = [(''tcp'', '':http'')]) \<and>
   (addr \<noteq> [] \<longrightarrow> listen_calls (snd (listen e addr cfg)) = [(''tcp'', addr)]) \<and>
   (net_Listen e ''tcp'' (if addr = [] then '':http'' else addr) = Some err \<longrightarrow>
      listen e addr cfg =
        (Inl err, [Listen_call ''tcp'' (if addr = [] then '':http'' else addr)])) \<and>
   (net_Listen e ''tcp'' (if addr = [] then '':http'' else addr) = None \<and>
    MaxOpenConnections cfg > 0 \<longrightarrow>
      listen e addr cfg =
        (Inr (LimitListener (TCPListener ''tcp'' (if addr = [] then '':http'' else addr))
                (MaxOpenConnections cfg)),
         [Listen_call ''tcp'' (if addr = [] then '':http'' else addr),
          LimitListener_call (TCPListener ''tcp'' (if addr = [] then '':http'' else addr))
            (MaxOpenConnections cfg)])) \<and>
   (net_Listen e ''tcp'' (if addr = [] then '':http'' else addr) = None \<and>
    MaxOpenConnections cfg \<le> 0 \<longrightarrow>
      listen e addr cfg =
        (Inr (TCPListener ''tcp'' (if addr = [] then '':http'' else addr)),
         [Listen_call ''tcp'' (if addr = [] then '':http'' else addr)]))"
  by (simp add: listen_def Let_def trace_simps split: option.splits)

theorem listen_contract_witness:
  "listen_calls (snd (listen env_ok [] cfg0)) = [(''tcp'', '':http'')] \<and>
   listen_calls (snd (listen env_ok ''127.0.0.1:8545'' cfg0)) = [(''tcp'', ''127.0.0.1:8545'')] \<and>
   listen env_port_taken ''127.0.0.1:8545'' cfg0 =
     (Inl (Error ''listen tcp 127.0.0.1:8545: bind: address already in use''),
      [Listen_call ''tcp'' ''127.0.0.1:8545'']) \<and>
   fst (listen env_ok [] cfg0) = Inr (LimitListener (TCPListener ''tcp'' '':http'') 100) \<and>
   fst (listen env_ok ''127.0.0.1:8545'' cfg_unlimited) =
     Inr (TCPListener ''tcp'' ''127.0.0.1:8545'')"
proof -
  let ?busy = "Error ''listen tcp 127.0.0.1:8545: bind: address already in use''"
  have 1: "net_Listen env_port_taken ''tcp'' ''127.0.0.1:8545'' = Some ?busy"
    by (simp add: env_port_taken_def)
  have 2: "net_Listen env_ok ''tcp'' '':http'' = None \<and> MaxOpenConnections cfg0 > 0"
    by (simp add: env_ok_def cfg0_def)
  have 3: "net_Listen env_ok ''tcp'' ''127.0.0.1:8545'' = None \<and>
           MaxOpenConnections cfg_unlimited \<le> 0"
    by (simp add: env_ok_def cfg_unlimited_def)
  have 4: "MaxOpenConnections cfg0 = 100"
    by (simp add: cfg0_def)
  from 1 2 3 4
    listen_contract [where addr = "[]" and e = env_ok and cfg = cfg0]
    listen_contract [where addr = "''127.0.0.1:8545''" and e = env_ok and cfg = cfg0]
    listen_contract [where addr = "''127.0.0.1:8545''" and e = env_port_taken
      and err = ?busy and cfg = cfg0]
    listen_contract [where addr = "''127.0.0.1:8545''" and e = env_ok and cfg = cfg_unlimited]
  show ?thesis
    by (simp add: trace_simps)
qed

subsection \<open>C9: the upstream endpoint\<close>

text \<open>
  C9. Whatever the environment, the configuration and the world, a call of
  \<open>StartJSONRPC\<close> constructs exactly one upstream client, for the address
  \<open>"http://127.0.0.1:26657"\<close> and the path \<open>"/websocket"\<close>, with at most 256 reconnect
  attempts, read and write waits of zero, and a ping period of 50 seconds
  (\<open>50 * 1000000000\<close> nanoseconds). The connection is made by \<open>OnStart\<close>: when the
  construction succeeds, \<open>OnStart\<close> is called once, on the client of exactly that address,
  path and options, and on no other client; when the construction fails, \<open>OnStart\<close> is not
  called at all. That client is also the one \<open>ConnectCometWS\<close> returns.
\<close>

theorem upstream_endpoint_is_fixed:
  "newws_calls (snd (StartJSONRPC e cfg w)) =
     newws_calls w @
     [(''http://127.0.0.1:26657'', ''/websocket'',
       \<lparr>MaxReconnectAttempts = 256, ReadWait = 0, WriteWait = 0,
        PingPeriod = 50 * Second,
        OnReconnect = DebugLog ''EVM RPC reconnects to Comet WS'' ''address''
                        ''http://127.0.0.1:26657/websocket''\<rparr>)] \<and>
   onstart_calls (snd (StartJSONRPC e cfg w)) =
     onstart_calls w @
     (case NewWS e ''http://127.0.0.1:26657'' ''/websocket''
             \<lparr>MaxReconnectAttempts = 256, ReadWait = 0, WriteWait = 0,
              PingPeriod = 50 * Second,
              OnReconnect = DebugLog ''EVM RPC reconnects to Comet WS'' ''address''
                              ''http://127.0.0.1:26657/websocket''\<rparr> of
        None \<Rightarrow>
          [WSClient ''http://127.0.0.1:26657'' ''/websocket''
             \<lparr>MaxReconnectAttempts = 256, ReadWait = 0, WriteWait = 0,
              PingPeriod = 50 * Second,
              OnReconnect = DebugLog ''EVM RPC reconnects to Comet WS'' ''address''
                              ''http://127.0.0.1:26657/websocket''\<rparr>]
      | Some err \<Rightarrow> []) \<and>
   fst (ConnectCometWS e ''http://127.0.0.1:26657'' ''/websocket'') =
     (case NewWS e ''http://127.0.0.1:26657'' ''/websocket''
             \<lparr>MaxReconnectAttempts = 256, ReadWait = 0, WriteWait = 0,
              PingPeriod = 50 * Second,
              OnReconnect = DebugLog ''EVM RPC reconnects to Comet WS'' ''address''
                              ''http://127.0.0.1:26657/websocket''\<rparr> of
        None \<Rightarrow>
          Some (WSClient ''http://127.0.0.1:26657'' ''/websocket''
             \<lparr>MaxReconnectAttempts = 256, ReadWait = 0, WriteWait = 0,
              PingPeriod = 50 * Second,
              OnReconnect = DebugLog ''EVM RPC reconnects to Comet WS'' ''address''
                              ''http://127.0.0.1:26657/websocket''\<rparr>)
      | Some err \<Rightarrow> None) \<and>
   Second = 1000000000"
proof -
  have o: "comet_options ''http://127.0.0.1:26657'' ''/websocket'' =
      \<lparr>MaxReconnectAttempts = 256, ReadWait = 0, WriteWait = 0,
        PingPeriod = 50 * Second,
        OnReconnect = DebugLog ''EVM RPC reconnects to Comet WS'' ''address''
                        ''http://127.0.0.1:26657/websocket''\<rparr>"
    by (simp add: comet_options_def)
  have r: "fst (ConnectCometWS e ''http://127.0.0.1:26657'' ''/websocket'') =
      (case NewWS e ''http://127.0.0.1:26657'' ''/websocket''
              (comet_options ''http://127.0.0.1:26657'' ''/websocket'') of
         None \<Rightarrow> Some (WSClient ''http://127.0.0.1:26657'' ''/websocket''
                        (comet_options ''http://127.0.0.1:26657'' ''/websocket''))
       | Some err \<Rightarrow> None)"
    by (simp add: ConnectCometWS_def Let_def split: option.splits)
  from StartJSONRPC_newws [of e cfg w] StartJSONRPC_onstart [of e cfg w] r
  show ?thesis
    unfolding o by (simp add: Second_def)
qed

subsection \<open>C10: a successful start returns nil\<close>

text \<open>
  C10. When the upstream connection, all registrations and the bind succeed,
  \<open>StartJSONRPC\<close> returns nil, and the last thing it does is to submit the lifecycle task
  to the errgroup. The call itself starts no serve goroutine and closes nothing, and its
  return value is nil whatever \<open>Close\<close> would return. The outcome of serving and of
  shutting down is the return value of the submitted task only: run on cancellation it
  returns what \<open>Close\<close> returns, run on a serve-loop result it returns that result.
\<close>

theorem StartJSONRPC_returns_nil_after_submit:
  assumes "ConnectCometWS e ''http://127.0.0.1:26657'' ''/websocket'' = (Some c, ev1)"
    and "register_loop e NewServer (apis (JSONRPCBackend cfg) c) = ((None, srv), ev2)"
    and "listen e (Address cfg) cfg = (Inr ln, ev3)"
  shows "fst (StartJSONRPC e cfg w) = None \<and>
         snd (StartJSONRPC e cfg w) =
           w @ ev1 @ [SetDefault_call] @ ev2 @ ev3 @
           [Go_call \<lparr>c_httpSrv = new_httpSrv cfg srv, c_ln = ln, c_jsonRPCConfig = cfg\<rparr>] \<and>
         tasks (snd (StartJSONRPC e cfg w)) =
           tasks w @ [\<lparr>c_httpSrv = new_httpSrv cfg srv, c_ln = ln, c_jsonRPCConfig = cfg\<rparr>] \<and>
         serve_goroutines (snd (StartJSONRPC e cfg w)) = serve_goroutines w \<and>
         close_calls (snd (StartJSONRPC e cfg w)) = close_calls w \<and>
         fst (StartJSONRPC (e\<lparr>Close := cl\<rparr>) cfg w) = None \<and>
         fst (lifecycle_task e
                \<lparr>c_httpSrv = new_httpSrv cfg srv, c_ln = ln, c_jsonRPCConfig = cfg\<rparr> ctx_Done) =
           Close e (new_httpSrv cfg srv) \<and>
         fst (lifecycle_task e
                \<lparr>c_httpSrv = new_httpSrv cfg srv, c_ln = ln, c_jsonRPCConfig = cfg\<rparr>
                (errCh_recv r)) = r"
proof -
  note run = StartJSONRPC_started [OF assms, of w]
  have "fst (StartJSONRPC e cfg w) = None"
    by (simp add: run)
  moreover have "snd (StartJSONRPC e cfg w) =
      w @ ev1 @ [SetDefault_call] @ ev2 @ ev3 @
      [Go_call \<lparr>c_httpSrv = new_httpSrv cfg srv, c_ln = ln, c_jsonRPCConfig = cfg\<rparr>]"
    by (simp add: run)
  moreover have "tasks (snd (StartJSONRPC e cfg w)) =
      tasks w @ [\<lparr>c_httpSrv = new_httpSrv cfg srv, c_ln = ln, c_jsonRPCConfig = cfg\<rparr>]"
    by (simp add: run trace_simps ev1_trace [OF assms(1)] ev2_trace [OF assms(2)]
          ev3_trace [OF assms(3)])
  moreover have "fst (StartJSONRPC (e\<lparr>Close := cl\<rparr>) cfg w) = None"
    by (simp add: StartJSONRPC_Close_irrelevant run)
  moreover have "fst (lifecycle_task e
      \<lparr>c_httpSrv = new_httpSrv cfg srv, c_ln = ln, c_jsonRPCConfig = cfg\<rparr> ctx_Done) =
      Close e (new_httpSrv cfg srv)"
    by (simp add: lifecycle_task_def)
  moreover have "fst (lifecycle_task e
      \<lparr>c_httpSrv = new_httpSrv cfg srv, c_ln = ln, c_jsonRPCConfig = cfg\<rparr>
      (errCh_recv r)) = r"
    by (simp add: lifecycle_task_def)
  ultimately show ?thesis
    using StartJSONRPC_never_serves [of e cfg w] StartJSONRPC_never_closes [of e cfg w]
    by blast
qed

theorem StartJSONRPC_returns_nil_after_submit_witness:
  "fst (StartJSONRPC env_ok cfg0 []) = None \<and>
   last (snd (StartJSONRPC env_ok cfg0 [])) = Go_call task0 \<and>
   tasks (snd (StartJSONRPC env_ok cfg0 [])) = [task0] \<and>
   serve_goroutines (snd (StartJSONRPC env_ok cfg0 [])) = [] \<and>
   close_calls (snd (StartJSONRPC env_ok cfg0 [])) = [] \<and>
   fst (StartJSONRPC (env_ok\<lparr>Close := (\<lambda>srv. Some (Error ''close tcp: i/o error''))\<rparr>) cfg0 [])
     = None \<and>
   fst (lifecycle_task env_ok task0 ctx_Done) = Close env_ok srv0 \<and>
   fst (lifecycle_task env_ok task0
          (errCh_recv (Some (Error ''accept tcp: use of closed network connection'')))) =
     Some (Error ''accept tcp: use of closed network connection'')"
  using StartJSONRPC_returns_nil_after_submit
    [OF ConnectCometWS_env_ok register_loop_env_ok listen_env_ok,
     of "[]" "\<lambda>srv. Some (Error ''close tcp: i/o error'')"
        "Some (Error ''accept tcp: use of closed network connection'')"]
  by (simp add: task0_def srv0_def trace_simps apis_def)

end
